theory Spec2Isabelle
  imports Main "HOL-Library.Sublist"
begin

section \<open>JavaScript strings\<close>

text \<open>
  A JavaScript string is modelled as a \<^typ>\<open>string\<close>, one \<^typ>\<open>char\<close> per code unit.
  The built-in methods the sources call are given their library meaning:
  \<^verbatim>\<open>s.includes(p)\<close> holds when \<open>p\<close> occurs in \<open>s\<close> as a contiguous run,
  \<^verbatim>\<open>s.startsWith(p)\<close> when \<open>p\<close> is a prefix of \<open>s\<close>.
\<close>

definition str_includes :: "string \<Rightarrow> string \<Rightarrow> bool" where
  "str_includes s p = sublist p s"

definition str_startsWith :: "string \<Rightarrow> string \<Rightarrow> bool" where
  "str_startsWith s p = prefix p s"

section \<open>PageValidator: domain predicates\<close>

text \<open>
  \<^verbatim>\<open>
  export function isRewardsDomain(url: string): boolean {
      return url.includes('rewards.bing.com') || url.includes('rewards.microsoft.com')
  }
  export function isBingDomain(url: string): boolean {
      return url.includes('bing.com')
  }
  \<close>
\<close>

definition isRewardsDomain :: "string \<Rightarrow> bool" where
  "isRewardsDomain url =
     (str_includes url ''rewards.bing.com'' \<or> str_includes url ''rewards.microsoft.com'')"

definition isBingDomain :: "string \<Rightarrow> bool" where
  "isBingDomain url = str_includes url ''bing.com''"

section \<open>PageValidator: the page handle and its effects\<close>

text \<open>
  A value thrown in JavaScript is either an \<^verbatim>\<open>Error\<close> object, carrying its message,
  or any other value, carried here by its \<^verbatim>\<open>String(...)\<close> form. The handlers of
  the sources all read it through
  \<^verbatim>\<open>error instanceof Error ? error.message : String(error)\<close>.
\<close>

datatype thrown = Error_obj string | Other_value string

fun error_text :: "thrown \<Rightarrow> string" where
  "error_text (Error_obj message) = message"
| "error_text (Other_value str) = str"

text \<open>
  The page handle (Playwright's \<^verbatim>\<open>Page\<close>) is an external capability. Each function
  under study calls each of its methods at most once, so the handle is given by the
  outcome of each method: \<open>Inr\<close> the value returned (for the asynchronous methods, the
  value the promise resolves to), \<open>Inl\<close> the value thrown (for the asynchronous
  methods, the rejection). \<^verbatim>\<open>page.url()\<close> is typed \<^verbatim>\<open>string\<close>; the sources guard
  against an unset value with \<^verbatim>\<open>!url\<close>, so the model lets it be \<open>None\<close>
  (\<^verbatim>\<open>undefined\<close>).
\<close>

record page =
  url_of :: "thrown + string option"
  content_of :: "thrown + string"
  close_of :: "thrown + unit"
  goto_of :: "string \<Rightarrow> thrown + unit"

text \<open>
  The parsed document (cheerio's \<^verbatim>\<open>load(html)\<close>) is external as well: it is given by
  the outcomes of the two queries made on it, \<^verbatim>\<open>$('body.neterror').length\<close> and
  \<^verbatim>\<open>$('body').text()\<close>. The parser itself is a parameter of the functions below.
\<close>

record cheerio_doc =
  body_neterror_length :: "thrown + nat"
  body_text :: "thrown + string"

type_synonym cheerio_load = "string \<Rightarrow> thrown + cheerio_doc"

record bot_config =
  baseURL :: string

record bot =
  isMobile :: bool
  config :: bot_config

datatype log_level = Level_log | Level_warn | Level_error

text \<open>
  Every call that leaves the function is recorded, in order, with how it ended.
  \<^verbatim>\<open>bot.log\<close> is taken to return normally.
\<close>

datatype call =
    Page_url
  | Page_content
  | Cheerio_load
  | Select_body_neterror
  | Select_body_text
  | Page_close
  | Page_goto string string nat
  | Wait_for_page_ready nat
  | Bot_log bool string string log_level

datatype effect = Did call | Failed call thrown

record PageCheckResult =
  invalid :: bool
  reason :: "string option"

section \<open>PageValidator: isInvalidPage\<close>

definition errorPatterns :: "string list" where
  "errorPatterns =
     [''HTTP ERROR 400'',
      ''HTTP ERROR 403'',
      ''HTTP ERROR 404'',
      ''HTTP ERROR 500'',
      ''HTTP ERROR 502'',
      ''HTTP ERROR 503'',
      ''This page isn'' @ [CHR 0x27] @ ''t working'',
      ''This page is not working'',
      ''This site can'' @ [CHR 0x27] @ ''t be reached'',
      ''ERR_CONNECTION_REFUSED'',
      ''ERR_NAME_NOT_RESOLVED'',
      ''ERR_INTERNET_DISCONNECTED'',
      ''ERR_NETWORK_CHANGED'',
      ''ERR_CONNECTION_RESET'',
      ''ERR_CONNECTION_TIMED_OUT'']"

text \<open>
  \<^verbatim>\<open>
  for (const pattern of errorPatterns) {
      if (html.includes(pattern) || bodyText.includes(pattern)) {
          return { invalid: true, reason: `HTTP/network error: ${pattern}` }
      }
  }
  \<close>
  The loop returns at the first pattern found; \<open>None\<close> means it ran to its end.
\<close>

fun scan_patterns :: "string \<Rightarrow> string \<Rightarrow> string list \<Rightarrow> PageCheckResult option" where
  "scan_patterns html bodyText [] = None"
| "scan_patterns html bodyText (pattern # rest) =
     (if str_includes html pattern \<or> str_includes bodyText pattern
      then Some \<lparr>invalid = True, reason = Some (''HTTP/network error: '' @ pattern)\<rparr>
      else scan_patterns html bodyText rest)"

text \<open>
  The body of the \<^verbatim>\<open>try\<close> block of \<^verbatim>\<open>isInvalidPage\<close>: \<open>Inl\<close> is an exception that
  reaches the \<^verbatim>\<open>catch\<close> clause. \<^verbatim>\<open>page.content().catch(() => '')\<close> replaces a
  rejected content retrieval by the empty string.
\<close>

definition isInvalidPage_try :: "cheerio_load \<Rightarrow> page \<Rightarrow> effect list \<times> (thrown + PageCheckResult)" where
  "isInvalidPage_try load p =
     (case url_of p of
        Inl e \<Rightarrow> ([Failed Page_url e], Inl e)
      | Inr None \<Rightarrow> ([Did Page_url], Inr \<lparr>invalid = True, reason = Some ''blank page''\<rparr>)
      | Inr (Some url) \<Rightarrow>
          if url = [] \<or> url = ''about:blank'' \<or> url = []
          then ([Did Page_url], Inr \<lparr>invalid = True, reason = Some ''blank page''\<rparr>)
          else if str_startsWith url ''chrome-error://'' \<or> str_startsWith url ''edge://''
          then ([Did Page_url], Inr \<lparr>invalid = True, reason = Some ''browser error page''\<rparr>)
          else
            let (fetched, html) =
                  (case content_of p of
                     Inl e \<Rightarrow> (Failed Page_content e, [])
                   | Inr h \<Rightarrow> (Did Page_content, h))
            in
            if html = [] \<or> length html < 100
            then ([Did Page_url, fetched],
                  Inr \<lparr>invalid = True, reason = Some ''empty page content''\<rparr>)
            else
              (case load html of
                 Inl e \<Rightarrow> ([Did Page_url, fetched, Failed Cheerio_load e], Inl e)
               | Inr doc \<Rightarrow>
                   (case body_neterror_length doc of
                      Inl e \<Rightarrow>
                        ([Did Page_url, fetched, Did Cheerio_load, Failed Select_body_neterror e],
                         Inl e)
                    | Inr n \<Rightarrow>
                        if n > 0
                        then ([Did Page_url, fetched, Did Cheerio_load, Did Select_body_neterror],
                              Inr \<lparr>invalid = True, reason = Some ''network error''\<rparr>)
                        else
                          (case body_text doc of
                             Inl e \<Rightarrow>
                               ([Did Page_url, fetched, Did Cheerio_load, Did Select_body_neterror,
                                 Failed Select_body_text e],
                                Inl e)
                           | Inr bodyText \<Rightarrow>
                               ([Did Page_url, fetched, Did Cheerio_load, Did Select_body_neterror,
                                 Did Select_body_text],
                                Inr (case scan_patterns html bodyText errorPatterns of
                                       Some found \<Rightarrow> found
                                     | None \<Rightarrow> \<lparr>invalid = False, reason = None\<rparr>))))))"

text \<open>
  \<^verbatim>\<open>
  } catch (error) {
      return { invalid: true,
               reason: `page check failed: ${error instanceof Error ? error.message : String(error)}` }
  }
  \<close>
\<close>

definition isInvalidPage :: "cheerio_load \<Rightarrow> page \<Rightarrow> effect list \<times> (thrown + PageCheckResult)" where
  "isInvalidPage load p =
     (case isInvalidPage_try load p of
        (effects, Inl error) \<Rightarrow>
          (effects,
           Inr \<lparr>invalid = True, reason = Some (''page check failed: '' @ error_text error)\<rparr>)
      | (effects, Inr result) \<Rightarrow> (effects, Inr result))"

section \<open>PageValidator: validateAndRedirect and validateActivityDomain\<close>

text \<open>A template literal renders an absent \<^verbatim>\<open>reason\<close> as \<^verbatim>\<open>undefined\<close>.\<close>

fun template_text :: "string option \<Rightarrow> string" where
  "template_text None = ''undefined''"
| "template_text (Some s) = s"

text \<open>
  \<^verbatim>\<open>validateAndRedirect(page, bot, closeOnInvalid)\<close>. \<open>waitForPageReady\<close> (from
  SmartWait) is external: its outcome is a parameter, and its rejection is ignored by
  \<^verbatim>\<open>.catch(() => {})\<close>, as is the rejection of \<^verbatim>\<open>page.close()\<close>. A rejection of
  \<^verbatim>\<open>page.goto\<close> goes to the \<^verbatim>\<open>catch (navError)\<close> clause.
\<close>

definition validateAndRedirect ::
  "cheerio_load \<Rightarrow> (thrown + unit) \<Rightarrow> page \<Rightarrow> bot \<Rightarrow> bool \<Rightarrow> effect list \<times> (thrown + bool)" where
  "validateAndRedirect load waitForPageReady p b closeOnInvalid =
     (case isInvalidPage load p of
        (checked, Inl e) \<Rightarrow> (checked, Inl e)
      | (checked, Inr result) \<Rightarrow>
          if invalid result then
            let warned = checked @
                  [Did (Bot_log (isMobile b) ''PAGE-VALIDATOR''
                         (''Invalid page detected: '' @ template_text (reason result)) Level_warn)]
            in
            if closeOnInvalid then
              (case close_of p of
                 Inl e \<Rightarrow> (warned @ [Failed Page_close e], Inr False)
               | Inr u \<Rightarrow> (warned @ [Did Page_close], Inr False))
            else
              let announced = warned @
                    [Did (Bot_log (isMobile b) ''PAGE-VALIDATOR''
                           ''Redirecting to rewards home page...'' Level_log)];
                  navigation = Page_goto (baseURL (config b)) ''domcontentloaded'' 15000
              in
              (case goto_of p (baseURL (config b)) of
                 Inl navError \<Rightarrow>
                   (announced @
                      [Failed navigation navError,
                       Did (Bot_log (isMobile b) ''PAGE-VALIDATOR''
                             (''Failed to redirect to rewards: '' @ error_text navError)
                             Level_error)],
                    Inr False)
               | Inr u \<Rightarrow>
                   (case waitForPageReady of
                      Inl e \<Rightarrow>
                        (announced @ [Did navigation, Failed (Wait_for_page_ready 10000) e],
                         Inr False)
                    | Inr v \<Rightarrow>
                        (announced @ [Did navigation, Did (Wait_for_page_ready 10000)],
                         Inr False)))
          else (checked, Inr True))"

text \<open>
  \<^verbatim>\<open>validateActivityDomain(page, bot)\<close>. \<^verbatim>\<open>page.url()\<close> is called outside any
  \<^verbatim>\<open>try\<close>, and \<^verbatim>\<open>url.includes\<close> on an unset URL raises a \<^verbatim>\<open>TypeError\<close>.
\<close>

definition validateActivityDomain :: "page \<Rightarrow> bot \<Rightarrow> effect list \<times> (thrown + bool)" where
  "validateActivityDomain p b =
     (case url_of p of
        Inl e \<Rightarrow> ([Failed Page_url e], Inl e)
      | Inr None \<Rightarrow>
          ([Did Page_url], Inl (Error_obj ''Cannot read properties of undefined''))
      | Inr (Some url) \<Rightarrow>
          if isBingDomain url \<or> isRewardsDomain url
          then ([Did Page_url], Inr True)
          else ([Did Page_url,
                 Did (Bot_log (isMobile b) ''PAGE-VALIDATOR''
                       (''Unexpected domain after click: '' @ url) Level_warn)],
                Inr False))"

text \<open>
  The specification's wording of the domain check, for comparison with the code:
  \<open>isOnExpectedDomain url allowlist\<close> holds when \<open>url\<close> contains one of the
  allow-listed domain substrings.
\<close>

definition isOnExpectedDomain :: "string \<Rightarrow> string list \<Rightarrow> bool" where
  "isOnExpectedDomain url allowlist = list_ex (str_includes url) allowlist"

section \<open>DiscordBot: hasPermission\<close>

text \<open>
  An entry of \<^verbatim>\<open>allowedUserIds\<close> is a string or, as the source notes ("config may have
  numbers"), a number. \<^verbatim>\<open>String(id)\<close> leaves a string as it is; the rendering of a
  number is JavaScript's own and is a parameter here.
\<close>

datatype 'n config_id = Id_string string | Id_number 'n

fun String_of :: "('n \<Rightarrow> string) \<Rightarrow> 'n config_id \<Rightarrow> string" where
  "String_of number_text (Id_string s) = s"
| "String_of number_text (Id_number n) = number_text n"

record 'n discordBot_config =
  allowedUserIds :: "'n config_id list option"

record 'n bot_settings =
  discordBot :: "'n discordBot_config option"

record interaction =
  user_id :: string

text \<open>
  \<^verbatim>\<open>
  const allowedUserIds = this.config.discordBot?.allowedUserIds || []
  if (allowedUserIds.length === 0) { return true }
  const allowedStrings = allowedUserIds.map(id => String(id))
  return allowedStrings.includes(interaction.user.id)
  \<close>
\<close>

definition hasPermission :: "('n \<Rightarrow> string) \<Rightarrow> 'n bot_settings \<Rightarrow> interaction \<Rightarrow> bool" where
  "hasPermission number_text settings i =
     (let allowed =
            (case discordBot settings of
               None \<Rightarrow> []
             | Some d \<Rightarrow> (case allowedUserIds d of None \<Rightarrow> [] | Some ids \<Rightarrow> ids))
      in
      if length allowed = 0 then True
      else
        let allowedStrings = map (String_of number_text) allowed
        in user_id i \<in> set allowedStrings)"

section \<open>DiscordBot: handleAccounts\<close>




text \<open>The decimal text of an array index plus one, as a template literal prints it.\<close>

definition digit_char :: "nat \<Rightarrow> char" where
  "digit_char d = ''0123456789'' ! d"

function string_of_nat :: "nat \<Rightarrow> string" where
  "string_of_nat n =
     (if n < 10 then [digit_char n] else string_of_nat (n div 10) @ [digit_char (n mod 10)])"
  by pat_completeness auto
termination
  by (relation "measure id") auto

declare string_of_nat.simps [simp del]

text \<open>
  An account carries its email and further fields (password, recovery data and so
  on); the record is extensible, so the functions below apply to accounts with any
  further fields.
\<close>

record account =
  email :: string

















section \<open>Reading the recorded effects; sample inputs\<close>

fun effect_call :: "effect \<Rightarrow> call" where
  "effect_call (Did c) = c"
| "effect_call (Failed c e) = c"

text \<open>Concrete parsers, page handles and settings on which the results below are run.\<close>

definition load_plain :: cheerio_load where
  "load_plain html = Inr \<lparr>body_neterror_length = Inr 0, body_text = Inr []\<rparr>"

definition goto_resolves :: "string \<Rightarrow> thrown + unit" where
  "goto_resolves url = Inr ()"

definition goto_rejects :: "string \<Rightarrow> thrown + unit" where
  "goto_rejects url = Inl (Error_obj ''net::ERR_ABORTED'')"

definition sample_bot :: bot where
  "sample_bot = \<lparr>isMobile = False, config = \<lparr>baseURL = ''https://rewards.bing.com''\<rparr>\<rparr>"

definition page_blank :: page where
  "page_blank =
     \<lparr>url_of = Inr (Some ''about:blank''), content_of = Inr [],
      close_of = Inr (), goto_of = goto_rejects\<rparr>"

definition page_url_throws :: page where
  "page_url_throws =
     \<lparr>url_of = Inl (Error_obj ''Target closed''), content_of = Inr [],
      close_of = Inr (), goto_of = goto_resolves\<rparr>"

definition page_content_rejected :: page where
  "page_content_rejected =
     \<lparr>url_of = Inr (Some ''https://rewards.bing.com/''),
      content_of = Inl (Error_obj ''Target closed''),
      close_of = Inr (), goto_of = goto_resolves\<rparr>"

definition page_short :: page where
  "page_short =
     \<lparr>url_of = Inr (Some ''https://www.bing.com/search?q=a''),
      content_of = Inr ''<html><body>ERR_CONNECTION_RESET</body></html>'',
      close_of = Inr (), goto_of = goto_resolves\<rparr>"

definition html_reset :: string where
  "html_reset =
     ''<html><body>'' @ replicate 100 (CHR ''-'') @ ''ERR_CONNECTION_RESET</body></html>''"

definition page_reset :: page where
  "page_reset =
     \<lparr>url_of = Inr (Some ''https://www.bing.com/search?q=a''),
      content_of = Inr html_reset,
      close_of = Inr (), goto_of = goto_resolves\<rparr>"

definition page_healthy :: page where
  "page_healthy =
     \<lparr>url_of = Inr (Some ''https://rewards.bing.com/''),
      content_of = Inr (replicate 100 (CHR ''-'')),
      close_of = Inr (), goto_of = goto_resolves\<rparr>"

definition page_elsewhere :: page where
  "page_elsewhere =
     \<lparr>url_of = Inr (Some ''https://example.org/landing''),
      content_of = Inr [],
      close_of = Inr (), goto_of = goto_resolves\<rparr>"

definition settings_open :: "nat bot_settings" where
  "settings_open = \<lparr>discordBot = Some \<lparr>allowedUserIds = Some []\<rparr>\<rparr>"

definition settings_listed :: "nat bot_settings" where
  "settings_listed =
     \<lparr>discordBot = Some \<lparr>allowedUserIds = Some [Id_string ''1001'', Id_number 1002]\<rparr>\<rparr>"

record account_with_password = account +
  password :: string



definition load_throws :: cheerio_load where
  "load_throws html = Inl (Error_obj ''boom'')"

definition load_selector_throws :: cheerio_load where
  "load_selector_throws html =
     Inr \<lparr>body_neterror_length = Inl (Other_value ''bad selector''), body_text = Inr []\<rparr>"

definition load_text_throws :: cheerio_load where
  "load_text_throws html =
     Inr \<lparr>body_neterror_length = Inr 0, body_text = Inl (Error_obj ''no body'')\<rparr>"

text \<open>Which recorded calls are navigations.\<close>

fun is_goto :: "call \<Rightarrow> bool" where
  "is_goto (Page_goto url waitUntil timeout) = True"
| "is_goto c = False"

section \<open>Facts about string containment\<close>

lemma str_includes_iff: "str_includes s p \<longleftrightarrow> (\<exists>before after. s = before @ p @ after)"
  by (simp add: str_includes_def sublist_def)

lemma str_includes_trans:
  "str_includes s q \<Longrightarrow> str_includes q p \<Longrightarrow> str_includes s p"
  unfolding str_includes_def by (rule sublist_order.order_trans)

lemma rewards_bing_includes_bing: "str_includes ''rewards.bing.com'' ''bing.com''"
proof -
  have "''rewards.bing.com'' = ''rewards.'' @ ''bing.com'' @ []" by simp
  then show ?thesis unfolding str_includes_iff by blast
qed

section \<open>Facts about isInvalidPage\<close>

lemma isInvalidPage_returns: "\<exists>r. snd (isInvalidPage load p) = Inr r"
  by (cases "isInvalidPage_try load p") (auto simp: isInvalidPage_def split: sum.splits)

lemma isInvalidPage_of_throw:
  "snd (isInvalidPage_try load p) = Inl e \<Longrightarrow>
   snd (isInvalidPage load p) =
     Inr \<lparr>invalid = True, reason = Some (''page check failed: '' @ error_text e)\<rparr>"
  by (cases "isInvalidPage_try load p") (auto simp: isInvalidPage_def split: sum.splits)

lemma isInvalidPage_of_value:
  "snd (isInvalidPage_try load p) = Inr r \<Longrightarrow> snd (isInvalidPage load p) = Inr r"
  by (cases "isInvalidPage_try load p") (auto simp: isInvalidPage_def split: sum.splits)

lemma isInvalidPage_effects: "fst (isInvalidPage load p) = fst (isInvalidPage_try load p)"
  by (cases "isInvalidPage_try load p") (auto simp: isInvalidPage_def split: sum.splits)

lemma isInvalidPage_own_calls:
  "x \<in> set (fst (isInvalidPage load p)) \<Longrightarrow>
   effect_call x \<in> {Page_url, Page_content, Cheerio_load, Select_body_neterror, Select_body_text}"
  by (auto simp: isInvalidPage_def isInvalidPage_try_def Let_def
           split: sum.splits option.splits if_splits prod.splits)

lemma scan_patterns_invalid:
  "scan_patterns html bodyText ps = Some r \<Longrightarrow> invalid r \<and> reason r \<noteq> None"
  by (induction ps) (auto split: if_splits)

lemma scan_patterns_found:
  "q \<in> set ps \<Longrightarrow> str_includes html q \<or> str_includes bodyText q \<Longrightarrow>
   scan_patterns html bodyText ps \<noteq> None"
  by (induction ps) (auto split: if_splits)

lemma scan_patterns_skip:
  "\<forall>q \<in> set qs. \<not> str_includes html q \<and> \<not> str_includes bodyText q \<Longrightarrow>
   scan_patterns html bodyText (qs @ ps) = scan_patterns html bodyText ps"
  by (induction qs) auto

lemma errorPatterns_around_reset:
  "errorPatterns = take 13 errorPatterns @ ''ERR_CONNECTION_RESET'' # drop 14 errorPatterns"
  by (simp add: errorPatterns_def)

lemma reset_is_a_pattern: "''ERR_CONNECTION_RESET'' \<in> set errorPatterns"
  by (simp add: errorPatterns_def)

lemma scan_patterns_reset:
  assumes "str_includes html ''ERR_CONNECTION_RESET''"
  shows "\<exists>r. scan_patterns html bodyText errorPatterns = Some r \<and> invalid r"
proof -
  obtain r where "scan_patterns html bodyText errorPatterns = Some r"
    using scan_patterns_found [OF reset_is_a_pattern, of html bodyText] assms by auto
  then show ?thesis using scan_patterns_invalid by blast
qed

lemma valid_only_after_scan:
  "snd (isInvalidPage_try load p) = Inr r \<Longrightarrow> \<not> invalid r \<Longrightarrow>
   \<exists>html bodyText. content_of p = Inr html \<and> scan_patterns html bodyText errorPatterns = None"
  by (auto simp: isInvalidPage_try_def Let_def dest: scan_patterns_invalid
           split: sum.splits option.splits if_splits)

lemma reset_page_invalid:
  assumes "content_of p = Inr html" "str_includes html ''ERR_CONNECTION_RESET''"
  shows "\<exists>r. snd (isInvalidPage load p) = Inr r \<and> invalid r"
proof (cases "snd (isInvalidPage_try load p)")
  case (Inl e)
  then show ?thesis by (simp add: isInvalidPage_of_throw)
next
  case (Inr r)
  have "invalid r"
  proof (rule ccontr)
    assume "\<not> invalid r"
    then obtain bodyText where "scan_patterns html bodyText errorPatterns = None"
      using valid_only_after_scan [OF Inr] assms(1) by auto
    then show False using scan_patterns_reset [OF assms(2), of bodyText] by simp
  qed
  with Inr show ?thesis by (simp add: isInvalidPage_of_value)
qed

lemma reset_page_reason:
  assumes "content_of p = Inr html" "str_includes html ''ERR_CONNECTION_RESET''"
    "url_of p = Inr (Some url)" "url \<noteq> []" "url \<noteq> ''about:blank''"
    "\<not> str_startsWith url ''chrome-error://''" "\<not> str_startsWith url ''edge://''"
    "100 \<le> length html" "load html = Inr doc"
    "body_neterror_length doc = Inr 0" "body_text doc = Inr bodyText"
    "\<forall>q \<in> set (take 13 errorPatterns). \<not> str_includes html q \<and> \<not> str_includes bodyText q"
  shows "snd (isInvalidPage load p) =
     Inr \<lparr>invalid = True, reason = Some ''HTTP/network error: ERR_CONNECTION_RESET''\<rparr>"
proof -
  have "scan_patterns html bodyText errorPatterns =
        scan_patterns html bodyText (''ERR_CONNECTION_RESET'' # drop 14 errorPatterns)"
    using scan_patterns_skip [OF assms(12)] errorPatterns_around_reset by metis
  then have "scan_patterns html bodyText errorPatterns =
     Some \<lparr>invalid = True, reason = Some ''HTTP/network error: ERR_CONNECTION_RESET''\<rparr>"
    using assms(2) by simp
  then show ?thesis using assms
    by (auto simp: isInvalidPage_def isInvalidPage_try_def Let_def)
qed

lemma html_reset_includes: "str_includes html_reset ''ERR_CONNECTION_RESET''"
  unfolding str_includes_iff html_reset_def
  by (rule exI [of _ "''<html><body>'' @ replicate 100 (CHR ''-'')"],
      rule exI [of _ "''</body></html>''"]) simp

lemma html_reset_nothing_earlier:
  "\<forall>q \<in> set (take 13 errorPatterns). \<not> str_includes html_reset q \<and> \<not> str_includes [] q"
  by code_simp

lemma isInvalidPage_failed_exact:
  "Failed c e \<in> set (fst (isInvalidPage load p)) \<Longrightarrow>
   snd (isInvalidPage load p) =
     Inr \<lparr>invalid = True,
          reason = Some (if c = Page_content then ''empty page content''
                         else ''page check failed: '' @ error_text e)\<rparr>"
  by (auto simp: isInvalidPage_def isInvalidPage_try_def Let_def
           split: sum.splits option.splits if_splits prod.splits)

lemma isInvalidPage_url_throws:
  "url_of p = Inl e \<Longrightarrow>
   isInvalidPage load p =
     ([Failed Page_url e],
      Inr \<lparr>invalid = True, reason = Some (''page check failed: '' @ error_text e)\<rparr>)"
  by (simp add: isInvalidPage_def isInvalidPage_try_def)

lemma isInvalidPage_content_rejected:
  assumes "url_of p = Inr (Some url)" and "url \<noteq> []" and "url \<noteq> ''about:blank''"
    and "\<not> str_startsWith url ''chrome-error://''" and "\<not> str_startsWith url ''edge://''"
    and "content_of p = Inl e"
  shows "isInvalidPage load p =
     ([Did Page_url, Failed Page_content e],
      Inr \<lparr>invalid = True, reason = Some ''empty page content''\<rparr>)"
  using assms by (simp add: isInvalidPage_def isInvalidPage_try_def)

lemma isInvalidPage_short_content:
  assumes "url_of p = Inr (Some url)" and "url \<noteq> []" and "url \<noteq> ''about:blank''"
    and "\<not> str_startsWith url ''chrome-error://''" and "\<not> str_startsWith url ''edge://''"
    and "content_of p = Inr html" and "length html < 100"
  shows "isInvalidPage load p =
     ([Did Page_url, Did Page_content],
      Inr \<lparr>invalid = True, reason = Some ''empty page content''\<rparr>)"
  using assms by (simp add: isInvalidPage_def isInvalidPage_try_def)

lemma isInvalidPage_load_throws:
  assumes "url_of p = Inr (Some url)" and "url \<noteq> []" and "url \<noteq> ''about:blank''"
    and "\<not> str_startsWith url ''chrome-error://''" and "\<not> str_startsWith url ''edge://''"
    and "content_of p = Inr html" and "100 \<le> length html"
    and "load html = Inl e"
  shows "isInvalidPage load p =
     ([Did Page_url, Did Page_content, Failed Cheerio_load e],
      Inr \<lparr>invalid = True, reason = Some (''page check failed: '' @ error_text e)\<rparr>)"
  using assms by (auto simp: isInvalidPage_def isInvalidPage_try_def)

lemma isInvalidPage_selector_throws:
  assumes "url_of p = Inr (Some url)" and "url \<noteq> []" and "url \<noteq> ''about:blank''"
    and "\<not> str_startsWith url ''chrome-error://''" and "\<not> str_startsWith url ''edge://''"
    and "content_of p = Inr html" and "100 \<le> length html"
    and "load html = Inr doc" and "body_neterror_length doc = Inl e"
  shows "isInvalidPage load p =
     ([Did Page_url, Did Page_content, Did Cheerio_load, Failed Select_body_neterror e],
      Inr \<lparr>invalid = True, reason = Some (''page check failed: '' @ error_text e)\<rparr>)"
  using assms by (auto simp: isInvalidPage_def isInvalidPage_try_def)

lemma isInvalidPage_text_throws:
  assumes "url_of p = Inr (Some url)" and "url \<noteq> []" and "url \<noteq> ''about:blank''"
    and "\<not> str_startsWith url ''chrome-error://''" and "\<not> str_startsWith url ''edge://''"
    and "content_of p = Inr html" and "100 \<le> length html"
    and "load html = Inr doc" and "body_neterror_length doc = Inr 0"
    and "body_text doc = Inl e"
  shows "isInvalidPage load p =
     ([Did Page_url, Did Page_content, Did Cheerio_load, Did Select_body_neterror,
       Failed Select_body_text e],
      Inr \<lparr>invalid = True, reason = Some (''page check failed: '' @ error_text e)\<rparr>)"
  using assms by (auto simp: isInvalidPage_def isInvalidPage_try_def)

lemma page_healthy_usable:
  "url_of page_healthy = Inr (Some ''https://rewards.bing.com/'') \<and>
   ''https://rewards.bing.com/'' \<noteq> [] \<and> ''https://rewards.bing.com/'' \<noteq> ''about:blank'' \<and>
   \<not> str_startsWith ''https://rewards.bing.com/'' ''chrome-error://'' \<and>
   \<not> str_startsWith ''https://rewards.bing.com/'' ''edge://''"
  by (simp add: page_healthy_def str_startsWith_def)

lemma page_healthy_content:
  "content_of page_healthy = Inr (replicate 100 (CHR ''-'')) \<and>
   100 \<le> length (replicate 100 (CHR ''-''))"
  by (simp add: page_healthy_def)

lemma page_content_rejected_usable:
  "url_of page_content_rejected = Inr (Some ''https://rewards.bing.com/'') \<and>
   ''https://rewards.bing.com/'' \<noteq> [] \<and> ''https://rewards.bing.com/'' \<noteq> ''about:blank'' \<and>
   \<not> str_startsWith ''https://rewards.bing.com/'' ''chrome-error://'' \<and>
   \<not> str_startsWith ''https://rewards.bing.com/'' ''edge://''"
  by (simp add: page_content_rejected_def str_startsWith_def)

lemma page_content_rejected_content:
  "content_of page_content_rejected = Inl (Error_obj ''Target closed'')"
  by (simp add: page_content_rejected_def)

lemma page_short_usable:
  "url_of page_short = Inr (Some ''https://www.bing.com/search?q=a'') \<and>
   ''https://www.bing.com/search?q=a'' \<noteq> [] \<and>
   ''https://www.bing.com/search?q=a'' \<noteq> ''about:blank'' \<and>
   \<not> str_startsWith ''https://www.bing.com/search?q=a'' ''chrome-error://'' \<and>
   \<not> str_startsWith ''https://www.bing.com/search?q=a'' ''edge://''"
  by (simp add: page_short_def str_startsWith_def)

lemma page_short_content:
  "content_of page_short = Inr ''<html><body>ERR_CONNECTION_RESET</body></html>'' \<and>
   length ''<html><body>ERR_CONNECTION_RESET</body></html>'' < 100"
  by (simp add: page_short_def)

lemma page_url_throws_url: "url_of page_url_throws = Inl (Error_obj ''Target closed'')"
  by (simp add: page_url_throws_def)

lemma load_throws_run: "load_throws (replicate 100 (CHR ''-'')) = Inl (Error_obj ''boom'')"
  by (simp add: load_throws_def)

lemma load_selector_throws_run:
  "load_selector_throws (replicate 100 (CHR ''-'')) =
     Inr \<lparr>body_neterror_length = Inl (Other_value ''bad selector''), body_text = Inr []\<rparr>"
  by (simp add: load_selector_throws_def)

lemma load_text_throws_run:
  "load_text_throws (replicate 100 (CHR ''-'')) =
     Inr \<lparr>body_neterror_length = Inr 0, body_text = Inl (Error_obj ''no body'')\<rparr>"
  by (simp add: load_text_throws_def)

section \<open>Facts about validateAndRedirect and the domain check\<close>

lemma validateAndRedirect_valid:
  "isInvalidPage load p = (checked, Inr result) \<Longrightarrow> \<not> invalid result \<Longrightarrow>
   validateAndRedirect load w p b c = (checked, Inr True)"
  by (simp add: validateAndRedirect_def)

lemma validateAndRedirect_close:
  "isInvalidPage load p = (checked, Inr result) \<Longrightarrow> invalid result \<Longrightarrow>
   validateAndRedirect load w p b True =
     (checked @
        [Did (Bot_log (isMobile b) ''PAGE-VALIDATOR''
               (''Invalid page detected: '' @ template_text (reason result)) Level_warn),
         (case close_of p of Inl e \<Rightarrow> Failed Page_close e | Inr u \<Rightarrow> Did Page_close)],
      Inr False)"
  by (simp add: validateAndRedirect_def split: sum.splits)

lemma validateAndRedirect_redirect:
  "isInvalidPage load p = (checked, Inr result) \<Longrightarrow> invalid result \<Longrightarrow>
   validateAndRedirect load w p b False =
     (checked @
        [Did (Bot_log (isMobile b) ''PAGE-VALIDATOR''
               (''Invalid page detected: '' @ template_text (reason result)) Level_warn),
         Did (Bot_log (isMobile b) ''PAGE-VALIDATOR''
               ''Redirecting to rewards home page...'' Level_log)] @
        (case goto_of p (baseURL (config b)) of
           Inl navError \<Rightarrow>
             [Failed (Page_goto (baseURL (config b)) ''domcontentloaded'' 15000) navError,
              Did (Bot_log (isMobile b) ''PAGE-VALIDATOR''
                    (''Failed to redirect to rewards: '' @ error_text navError) Level_error)]
         | Inr u \<Rightarrow>
             [Did (Page_goto (baseURL (config b)) ''domcontentloaded'' 15000),
              (case w of
                 Inl e \<Rightarrow> Failed (Wait_for_page_ready 10000) e
               | Inr v \<Rightarrow> Did (Wait_for_page_ready 10000))]),
      Inr False)"
  by (simp add: validateAndRedirect_def Let_def split: sum.splits)

lemma scan_patterns_none:
  "\<forall>q \<in> set ps. \<exists>c \<in> set q. c \<notin> set html \<and> c \<notin> set bodyText \<Longrightarrow>
   scan_patterns html bodyText ps = None"
proof (induction ps)
  case Nil
  then show ?case by simp
next
  case (Cons q ps)
  then obtain c where c: "c \<in> set q" "c \<notin> set html" "c \<notin> set bodyText"
    by auto
  have "\<not> sublist q html" "\<not> sublist q bodyText"
    using c set_mono_sublist by blast+
  with Cons show ?case by (simp add: str_includes_def)
qed

lemma page_healthy_run:
  "isInvalidPage load_plain page_healthy =
     ([Did Page_url, Did Page_content, Did Cheerio_load, Did Select_body_neterror,
       Did Select_body_text],
      Inr \<lparr>invalid = False, reason = None\<rparr>)"
proof -
  have "scan_patterns (replicate 100 (CHR ''-'')) [] errorPatterns = None"
    by (rule scan_patterns_none) (simp add: errorPatterns_def)
  then show ?thesis
    by (simp add: isInvalidPage_def isInvalidPage_try_def page_healthy_def load_plain_def
          str_startsWith_def)
qed

lemma page_blank_run:
  "isInvalidPage load_plain page_blank =
     ([Did Page_url], Inr \<lparr>invalid = True, reason = Some ''blank page''\<rparr>)"
  by (simp add: isInvalidPage_def isInvalidPage_try_def page_blank_def)

lemma isOnExpectedDomain_set:
  "set ds = set ds' \<Longrightarrow> isOnExpectedDomain url ds = isOnExpectedDomain url ds'"
  by (simp add: isOnExpectedDomain_def list_ex_iff)

lemma reads_are_not_goto:
  "\<forall>x \<in> set checked.
     effect_call x \<in>
       {Page_url, Page_content, Cheerio_load, Select_body_neterror, Select_body_text} \<Longrightarrow>
   filter is_goto (map effect_call checked) = [] \<and> Page_close \<notin> set (map effect_call checked)"
  by (induction checked) auto

lemma page_content_rejected_run:
  "isInvalidPage load_plain page_content_rejected =
     ([Did Page_url, Failed Page_content (Error_obj ''Target closed'')],
      Inr \<lparr>invalid = True, reason = Some ''empty page content''\<rparr>)"
  by (simp add: isInvalidPage_def isInvalidPage_try_def page_content_rejected_def
        str_startsWith_def)

section \<open>Facts about split, the decimal text and the redaction\<close>






























section \<open>Claims\<close>

text \<open>
  C2. For every page handle and parser, \<open>isInvalidPage\<close> returns a result and raises
  nothing, and every failure inside it becomes a result with \<open>invalid = True\<close> and a
  reason that describes it. Step by step: a URL retrieval that throws \<open>e\<close> gives
  "page check failed: " followed by the text of \<open>e\<close>; on a usable URL, a rejected
  content retrieval gives "empty page content" (the rejection is replaced by empty
  content); on content of at least 100 characters, a parser that throws, a
  \<open>body.neterror\<close> query that throws or a body text query that throws each give
  "page check failed: " followed by the text of what was thrown. In general, whenever
  the call \<open>c\<close> failed with \<open>e\<close>, the reason is "empty page content" if \<open>c\<close> is the
  content retrieval and "page check failed: " with the text of \<open>e\<close> otherwise.
\<close>

theorem C2_isInvalidPage_total:
  "(\<exists>r. snd (isInvalidPage load p) = Inr r) \<and>
   (\<forall>c e. Failed c e \<in> set (fst (isInvalidPage load p)) \<longrightarrow>
      snd (isInvalidPage load p) =
        Inr \<lparr>invalid = True,
             reason = Some (if c = Page_content then ''empty page content''
                            else ''page check failed: '' @ error_text e)\<rparr>) \<and>
   (\<forall>e. url_of p = Inl e \<longrightarrow>
      isInvalidPage load p =
        ([Failed Page_url e],
         Inr \<lparr>invalid = True, reason = Some (''page check failed: '' @ error_text e)\<rparr>)) \<and>
   (\<forall>url. url_of p = Inr (Some url) \<and> url \<noteq> [] \<and> url \<noteq> ''about:blank'' \<and>
          \<not> str_startsWith url ''chrome-error://'' \<and> \<not> str_startsWith url ''edge://'' \<longrightarrow>
      (\<forall>e. content_of p = Inl e \<longrightarrow>
         isInvalidPage load p =
           ([Did Page_url, Failed Page_content e],
            Inr \<lparr>invalid = True, reason = Some ''empty page content''\<rparr>)) \<and>
      (\<forall>html. content_of p = Inr html \<and> 100 \<le> length html \<longrightarrow>
         (\<forall>e. load html = Inl e \<longrightarrow>
            isInvalidPage load p =
              ([Did Page_url, Did Page_content, Failed Cheerio_load e],
               Inr \<lparr>invalid = True,
                    reason = Some (''page check failed: '' @ error_text e)\<rparr>)) \<and>
         (\<forall>doc. load html = Inr doc \<longrightarrow>
            (\<forall>e. body_neterror_length doc = Inl e \<longrightarrow>
               isInvalidPage load p =
                 ([Did Page_url, Did Page_content, Did Cheerio_load,
                   Failed Select_body_neterror e],
                  Inr \<lparr>invalid = True,
                       reason = Some (''page check failed: '' @ error_text e)\<rparr>)) \<and>
            (\<forall>e. body_neterror_length doc = Inr 0 \<and> body_text doc = Inl e \<longrightarrow>
               isInvalidPage load p =
                 ([Did Page_url, Did Page_content, Did Cheerio_load, Did Select_body_neterror,
                   Failed Select_body_text e],
                  Inr \<lparr>invalid = True,
                       reason = Some (''page check failed: '' @ error_text e)\<rparr>)))))"
  apply (intro conjI allI impI)
  subgoal by (rule isInvalidPage_returns)
  subgoal for c e by (rule isInvalidPage_failed_exact)
  subgoal for e by (rule isInvalidPage_url_throws)
  subgoal for url e
    using isInvalidPage_content_rejected [where p = p and url = url and e = e and load = load]
    by blast
  subgoal for url html e
    using isInvalidPage_load_throws
      [where p = p and url = url and html = html and e = e and load = load]
    by blast
  subgoal for url html doc e
    using isInvalidPage_selector_throws
      [where p = p and url = url and html = html and doc = doc and e = e and load = load]
    by blast
  subgoal for url html doc e
    using isInvalidPage_text_throws
      [where p = p and url = url and html = html and doc = doc and e = e and load = load]
    by blast
  done

theorem C2_isInvalidPage_total_witness:
  "isInvalidPage load_plain page_url_throws =
     ([Failed Page_url (Error_obj ''Target closed'')],
      Inr \<lparr>invalid = True, reason = Some ''page check failed: Target closed''\<rparr>) \<and>
   isInvalidPage load_plain page_content_rejected =
     ([Did Page_url, Failed Page_content (Error_obj ''Target closed'')],
      Inr \<lparr>invalid = True, reason = Some ''empty page content''\<rparr>) \<and>
   isInvalidPage load_throws page_healthy =
     ([Did Page_url, Did Page_content, Failed Cheerio_load (Error_obj ''boom'')],
      Inr \<lparr>invalid = True, reason = Some ''page check failed: boom''\<rparr>) \<and>
   isInvalidPage load_selector_throws page_healthy =
     ([Did Page_url, Did Page_content, Did Cheerio_load,
       Failed Select_body_neterror (Other_value ''bad selector'')],
      Inr \<lparr>invalid = True, reason = Some ''page check failed: bad selector''\<rparr>) \<and>
   isInvalidPage load_text_throws page_healthy =
     ([Did Page_url, Did Page_content, Did Cheerio_load, Did Select_body_neterror,
       Failed Select_body_text (Error_obj ''no body'')],
      Inr \<lparr>invalid = True, reason = Some ''page check failed: no body''\<rparr>) \<and>
   snd (isInvalidPage load_throws page_healthy) =
     Inr \<lparr>invalid = True, reason = Some ''page check failed: boom''\<rparr>"
proof -
  note thrown_url = C2_isInvalidPage_total [of load_plain page_url_throws,
      THEN conjunct2, THEN conjunct2, THEN conjunct1, rule_format, OF page_url_throws_url]
  note rejected = C2_isInvalidPage_total [of load_plain page_content_rejected,
      THEN conjunct2, THEN conjunct2, THEN conjunct2, rule_format,
      OF page_content_rejected_usable,
      THEN conjunct1, rule_format, OF page_content_rejected_content]
  note parser = C2_isInvalidPage_total [of load_throws page_healthy,
      THEN conjunct2, THEN conjunct2, THEN conjunct2, rule_format, OF page_healthy_usable,
      THEN conjunct2, rule_format, OF page_healthy_content,
      THEN conjunct1, rule_format, OF load_throws_run]
  note selector = C2_isInvalidPage_total [of load_selector_throws page_healthy,
      THEN conjunct2, THEN conjunct2, THEN conjunct2, rule_format, OF page_healthy_usable,
      THEN conjunct2, rule_format, OF page_healthy_content,
      THEN conjunct2, rule_format, OF load_selector_throws_run,
      THEN conjunct1, rule_format, of "Other_value ''bad selector''"]
  note body = C2_isInvalidPage_total [of load_text_throws page_healthy,
      THEN conjunct2, THEN conjunct2, THEN conjunct2, rule_format, OF page_healthy_usable,
      THEN conjunct2, rule_format, OF page_healthy_content,
      THEN conjunct2, rule_format, OF load_text_throws_run,
      THEN conjunct2, rule_format, of "Error_obj ''no body''"]
  note paired = C2_isInvalidPage_total [of load_throws page_healthy,
      THEN conjunct2, THEN conjunct1, rule_format,
      of Cheerio_load "Error_obj ''boom''"]
  have first: "isInvalidPage load_plain page_url_throws =
     ([Failed Page_url (Error_obj ''Target closed'')],
      Inr \<lparr>invalid = True, reason = Some ''page check failed: Target closed''\<rparr>)"
    using thrown_url by simp
  have second: "isInvalidPage load_plain page_content_rejected =
     ([Did Page_url, Failed Page_content (Error_obj ''Target closed'')],
      Inr \<lparr>invalid = True, reason = Some ''empty page content''\<rparr>)"
    by (rule rejected)
  have third: "isInvalidPage load_throws page_healthy =
     ([Did Page_url, Did Page_content, Failed Cheerio_load (Error_obj ''boom'')],
      Inr \<lparr>invalid = True, reason = Some ''page check failed: boom''\<rparr>)"
    using parser by simp
  have fourth: "isInvalidPage load_selector_throws page_healthy =
     ([Did Page_url, Did Page_content, Did Cheerio_load,
       Failed Select_body_neterror (Other_value ''bad selector'')],
      Inr \<lparr>invalid = True, reason = Some ''page check failed: bad selector''\<rparr>)"
    using selector by simp
  have fifth: "isInvalidPage load_text_throws page_healthy =
     ([Did Page_url, Did Page_content, Did Cheerio_load, Did Select_body_neterror,
       Failed Select_body_text (Error_obj ''no body'')],
      Inr \<lparr>invalid = True, reason = Some ''page check failed: no body''\<rparr>)"
    using body by simp
  have "Failed Cheerio_load (Error_obj ''boom'')
      \<in> set (fst (isInvalidPage load_throws page_healthy))"
    by (simp add: third)
  then have sixth: "snd (isInvalidPage load_throws page_healthy) =
     Inr \<lparr>invalid = True, reason = Some ''page check failed: boom''\<rparr>"
    using paired by simp
  from first second third fourth fifth sixth show ?thesis by blast
qed

text \<open>
  C3. Let the pre-check \<open>isInvalidPage\<close> make the calls \<open>checked\<close> (reads of the page
  and of the parsed document only) and return \<open>result\<close>. \<open>validateAndRedirect\<close> takes no
  task body, raises nothing, and:
  for a valid page it returns true and makes no further call, so it neither closes
  nor navigates;
  for an invalid page with \<open>closeOnInvalid = True\<close> it logs a warning, closes the page
  (a failing close is ignored) and returns false, without navigating;
  for an invalid page with \<open>closeOnInvalid = False\<close> it logs, makes exactly one
  navigation, to the configured base URL with a timeout of 15000 ms, and returns
  false whether or not that navigation succeeds; after a successful navigation it
  makes one page-ready wait bounded by 10000 ms (whose failure is ignored), after a
  failed one it logs the failure; it does not close the page.
\<close>

theorem C3_validateAndRedirect:
  assumes "isInvalidPage load p = (checked, Inr result)"
  shows "(\<forall>x \<in> set checked.
            effect_call x \<in>
              {Page_url, Page_content, Cheerio_load, Select_body_neterror, Select_body_text}) \<and>
         (\<not> invalid result \<longrightarrow> validateAndRedirect load w p b c = (checked, Inr True)) \<and>
         (invalid result \<longrightarrow>
            validateAndRedirect load w p b True =
              (checked @
                 [Did (Bot_log (isMobile b) ''PAGE-VALIDATOR''
                        (''Invalid page detected: '' @ template_text (reason result))
                        Level_warn),
                  (case close_of p of
                     Inl e \<Rightarrow> Failed Page_close e
                   | Inr u \<Rightarrow> Did Page_close)],
               Inr False) \<and>
            filter is_goto (map effect_call (fst (validateAndRedirect load w p b True))) = [] \<and>
            validateAndRedirect load w p b False =
              (checked @
                 [Did (Bot_log (isMobile b) ''PAGE-VALIDATOR''
                        (''Invalid page detected: '' @ template_text (reason result))
                        Level_warn),
                  Did (Bot_log (isMobile b) ''PAGE-VALIDATOR''
                        ''Redirecting to rewards home page...'' Level_log)] @
                 (case goto_of p (baseURL (config b)) of
                    Inl navError \<Rightarrow>
                      [Failed (Page_goto (baseURL (config b)) ''domcontentloaded'' 15000)
                              navError,
                       Did (Bot_log (isMobile b) ''PAGE-VALIDATOR''
                             (''Failed to redirect to rewards: '' @ error_text navError)
                             Level_error)]
                  | Inr u \<Rightarrow>
                      [Did (Page_goto (baseURL (config b)) ''domcontentloaded'' 15000),
                       (case w of
                          Inl e \<Rightarrow> Failed (Wait_for_page_ready 10000) e
                        | Inr v \<Rightarrow> Did (Wait_for_page_ready 10000))]),
               Inr False) \<and>
            filter is_goto (map effect_call (fst (validateAndRedirect load w p b False))) =
              [Page_goto (baseURL (config b)) ''domcontentloaded'' 15000] \<and>
            Page_close \<notin> set (map effect_call (fst (validateAndRedirect load w p b False))))"
proof -
  have "fst (isInvalidPage load p) = checked"
    using assms by simp
  then have reads: "\<forall>x \<in> set checked.
      effect_call x \<in>
        {Page_url, Page_content, Cheerio_load, Select_body_neterror, Select_body_text}"
    using isInvalidPage_own_calls [of _ load p] by blast
  note quiet = reads_are_not_goto [OF reads]
  have valid: "\<not> invalid result \<longrightarrow> validateAndRedirect load w p b c = (checked, Inr True)"
    using validateAndRedirect_valid [OF assms] by blast
  have closing: "invalid result \<longrightarrow>
      filter is_goto (map effect_call (fst (validateAndRedirect load w p b True))) = []"
    using validateAndRedirect_close [OF assms, of w b] quiet
    by (auto split: sum.splits)
  have one_goto: "invalid result \<longrightarrow>
      filter is_goto (map effect_call (fst (validateAndRedirect load w p b False))) =
        [Page_goto (baseURL (config b)) ''domcontentloaded'' 15000]"
    using validateAndRedirect_redirect [OF assms, of w b] quiet
    by (auto split: sum.splits)
  have open_page: "invalid result \<longrightarrow>
      Page_close \<notin> set (map effect_call (fst (validateAndRedirect load w p b False)))"
    using validateAndRedirect_redirect [OF assms, of w b] quiet
    by (auto split: sum.splits)
  show ?thesis
    using reads valid closing one_goto open_page
      validateAndRedirect_close [OF assms, of w b]
      validateAndRedirect_redirect [OF assms, of w b]
    by blast
qed

theorem C3_validateAndRedirect_witness:
  "validateAndRedirect load_plain (Inr ()) page_healthy sample_bot False =
     ([Did Page_url, Did Page_content, Did Cheerio_load, Did Select_body_neterror,
       Did Select_body_text],
      Inr True) \<and>
   validateAndRedirect load_plain (Inr ()) page_blank sample_bot True =
     ([Did Page_url,
       Did (Bot_log False ''PAGE-VALIDATOR'' ''Invalid page detected: blank page'' Level_warn),
       Did Page_close],
      Inr False) \<and>
   validateAndRedirect load_plain (Inr ()) page_blank sample_bot False =
     ([Did Page_url,
       Did (Bot_log False ''PAGE-VALIDATOR'' ''Invalid page detected: blank page'' Level_warn),
       Did (Bot_log False ''PAGE-VALIDATOR'' ''Redirecting to rewards home page...'' Level_log),
       Failed (Page_goto ''https://rewards.bing.com'' ''domcontentloaded'' 15000)
              (Error_obj ''net::ERR_ABORTED''),
       Did (Bot_log False ''PAGE-VALIDATOR''
             ''Failed to redirect to rewards: net::ERR_ABORTED'' Level_error)],
      Inr False) \<and>
   validateAndRedirect load_plain (Inr ()) page_content_rejected sample_bot False =
     ([Did Page_url, Failed Page_content (Error_obj ''Target closed''),
       Did (Bot_log False ''PAGE-VALIDATOR''
             ''Invalid page detected: empty page content'' Level_warn),
       Did (Bot_log False ''PAGE-VALIDATOR'' ''Redirecting to rewards home page...'' Level_log),
       Did (Page_goto ''https://rewards.bing.com'' ''domcontentloaded'' 15000),
       Did (Wait_for_page_ready 10000)],
      Inr False)"
proof -
  note at_healthy = C3_validateAndRedirect [OF page_healthy_run, of "Inr ()" sample_bot False]
  note at_blank = C3_validateAndRedirect [OF page_blank_run, of "Inr ()" sample_bot True]
  note at_rejected = C3_validateAndRedirect [OF page_content_rejected_run,
      of "Inr ()" sample_bot True]
  have healthy: "validateAndRedirect load_plain (Inr ()) page_healthy sample_bot False =
     ([Did Page_url, Did Page_content, Did Cheerio_load, Did Select_body_neterror,
       Did Select_body_text],
      Inr True)"
    using at_healthy [THEN conjunct2, THEN conjunct1] by simp
  have closed: "validateAndRedirect load_plain (Inr ()) page_blank sample_bot True =
     ([Did Page_url,
       Did (Bot_log False ''PAGE-VALIDATOR'' ''Invalid page detected: blank page'' Level_warn),
       Did Page_close],
      Inr False)"
    using at_blank [THEN conjunct2, THEN conjunct2, rule_format, THEN conjunct1]
    by (simp add: page_blank_def sample_bot_def)
  have failed: "validateAndRedirect load_plain (Inr ()) page_blank sample_bot False =
     ([Did Page_url,
       Did (Bot_log False ''PAGE-VALIDATOR'' ''Invalid page detected: blank page'' Level_warn),
       Did (Bot_log False ''PAGE-VALIDATOR'' ''Redirecting to rewards home page...'' Level_log),
       Failed (Page_goto ''https://rewards.bing.com'' ''domcontentloaded'' 15000)
              (Error_obj ''net::ERR_ABORTED''),
       Did (Bot_log False ''PAGE-VALIDATOR''
             ''Failed to redirect to rewards: net::ERR_ABORTED'' Level_error)],
      Inr False)"
    using at_blank [THEN conjunct2, THEN conjunct2, rule_format,
        THEN conjunct2, THEN conjunct2, THEN conjunct1]
    by (simp add: page_blank_def sample_bot_def goto_rejects_def)
  have redirected:
    "validateAndRedirect load_plain (Inr ()) page_content_rejected sample_bot False =
     ([Did Page_url, Failed Page_content (Error_obj ''Target closed''),
       Did (Bot_log False ''PAGE-VALIDATOR''
             ''Invalid page detected: empty page content'' Level_warn),
       Did (Bot_log False ''PAGE-VALIDATOR'' ''Redirecting to rewards home page...'' Level_log),
       Did (Page_goto ''https://rewards.bing.com'' ''domcontentloaded'' 15000),
       Did (Wait_for_page_ready 10000)],
      Inr False)"
    using at_rejected [THEN conjunct2, THEN conjunct2, rule_format,
        THEN conjunct2, THEN conjunct2, THEN conjunct1]
    by (simp add: page_content_rejected_def sample_bot_def goto_resolves_def)
  from healthy closed failed redirected show ?thesis by blast
qed

text \<open>
  C4. For every page whose URL is unset, the empty string or exactly \<open>about:blank\<close>,
  \<open>isInvalidPage\<close> returns \<open>invalid = True\<close> with the reason "blank page", and the
  only call it has made is the URL retrieval: the content is not retrieved.
\<close>

theorem C4_blank_page:
  "url_of p = Inr u \<Longrightarrow> u = None \<or> u = Some [] \<or> u = Some ''about:blank'' \<Longrightarrow>
   isInvalidPage load p =
     ([Did Page_url], Inr \<lparr>invalid = True, reason = Some ''blank page''\<rparr>)"
  by (auto simp: isInvalidPage_def isInvalidPage_try_def)

theorem C4_blank_page_witness:
  "url_of page_blank = Inr (Some ''about:blank'') \<and>
   isInvalidPage load_plain page_blank =
     ([Did Page_url], Inr \<lparr>invalid = True, reason = Some ''blank page''\<rparr>)"
proof -
  have u: "url_of page_blank = Inr (Some ''about:blank'')"
    by (simp add: page_blank_def)
  show ?thesis
    using u C4_blank_page [OF u, of load_plain] by simp
qed

text \<open>
  C5, as the claim states it, fails: when the content retrieval itself fails, the
  reason is not of the form "page check failed: ...". The rejection is replaced by
  the empty string, and the reason is "empty page content".
\<close>

theorem C5_counterexample:
  "content_of page_content_rejected = Inl (Error_obj ''Target closed'') \<and>
   snd (isInvalidPage load_plain page_content_rejected) =
     Inr \<lparr>invalid = True, reason = Some ''empty page content''\<rparr> \<and>
   \<not> str_startsWith ''empty page content'' ''page check failed: ''"
  by (simp add: isInvalidPage_def isInvalidPage_try_def page_content_rejected_def
        str_startsWith_def)

text \<open>
  C5, amended. For every page whose URL is neither blank nor a browser error URL:
  if the retrieved content is shorter than 100 characters, or if the content
  retrieval itself fails, \<open>isInvalidPage\<close> returns \<open>invalid = True\<close> with the reason
  "empty page content". The reason "page check failed: ..." with the text of the
  failure is what a failure of another step gives: the URL retrieval, the parser, or
  one of the two queries on the parsed document.
\<close>

theorem C5_empty_content:
  "(\<forall>url. url_of p = Inr (Some url) \<and> url \<noteq> [] \<and> url \<noteq> ''about:blank'' \<and>
          \<not> str_startsWith url ''chrome-error://'' \<and> \<not> str_startsWith url ''edge://'' \<longrightarrow>
      (\<forall>html. content_of p = Inr html \<and> length html < 100 \<longrightarrow>
         isInvalidPage load p =
           ([Did Page_url, Did Page_content],
            Inr \<lparr>invalid = True, reason = Some ''empty page content''\<rparr>)) \<and>
      (\<forall>e. content_of p = Inl e \<longrightarrow>
         isInvalidPage load p =
           ([Did Page_url, Failed Page_content e],
            Inr \<lparr>invalid = True, reason = Some ''empty page content''\<rparr>)) \<and>
      (\<forall>html. content_of p = Inr html \<and> 100 \<le> length html \<longrightarrow>
         (\<forall>e. load html = Inl e \<longrightarrow>
            isInvalidPage load p =
              ([Did Page_url, Did Page_content, Failed Cheerio_load e],
               Inr \<lparr>invalid = True,
                    reason = Some (''page check failed: '' @ error_text e)\<rparr>)) \<and>
         (\<forall>doc. load html = Inr doc \<longrightarrow>
            (\<forall>e. body_neterror_length doc = Inl e \<longrightarrow>
               isInvalidPage load p =
                 ([Did Page_url, Did Page_content, Did Cheerio_load,
                   Failed Select_body_neterror e],
                  Inr \<lparr>invalid = True,
                       reason = Some (''page check failed: '' @ error_text e)\<rparr>)) \<and>
            (\<forall>e. body_neterror_length doc = Inr 0 \<and> body_text doc = Inl e \<longrightarrow>
               isInvalidPage load p =
                 ([Did Page_url, Did Page_content, Did Cheerio_load, Did Select_body_neterror,
                   Failed Select_body_text e],
                  Inr \<lparr>invalid = True,
                       reason = Some (''page check failed: '' @ error_text e)\<rparr>))))) \<and>
   (\<forall>e. url_of p = Inl e \<longrightarrow>
      isInvalidPage load p =
        ([Failed Page_url e],
         Inr \<lparr>invalid = True, reason = Some (''page check failed: '' @ error_text e)\<rparr>))"
  apply (intro conjI allI impI)
  subgoal for url html
    using isInvalidPage_short_content [where p = p and url = url and html = html and load = load]
    by blast
  subgoal for url e
    using isInvalidPage_content_rejected [where p = p and url = url and e = e and load = load]
    by blast
  subgoal for url html e
    using isInvalidPage_load_throws
      [where p = p and url = url and html = html and e = e and load = load]
    by blast
  subgoal for url html doc e
    using isInvalidPage_selector_throws
      [where p = p and url = url and html = html and doc = doc and e = e and load = load]
    by blast
  subgoal for url html doc e
    using isInvalidPage_text_throws
      [where p = p and url = url and html = html and doc = doc and e = e and load = load]
    by blast
  subgoal for e by (rule isInvalidPage_url_throws)
  done

theorem C5_empty_content_witness:
  "isInvalidPage load_plain page_short =
     ([Did Page_url, Did Page_content],
      Inr \<lparr>invalid = True, reason = Some ''empty page content''\<rparr>) \<and>
   isInvalidPage load_plain page_content_rejected =
     ([Did Page_url, Failed Page_content (Error_obj ''Target closed'')],
      Inr \<lparr>invalid = True, reason = Some ''empty page content''\<rparr>) \<and>
   isInvalidPage load_plain page_url_throws =
     ([Failed Page_url (Error_obj ''Target closed'')],
      Inr \<lparr>invalid = True, reason = Some ''page check failed: Target closed''\<rparr>) \<and>
   isInvalidPage load_throws page_healthy =
     ([Did Page_url, Did Page_content, Failed Cheerio_load (Error_obj ''boom'')],
      Inr \<lparr>invalid = True, reason = Some ''page check failed: boom''\<rparr>) \<and>
   isInvalidPage load_selector_throws page_healthy =
     ([Did Page_url, Did Page_content, Did Cheerio_load,
       Failed Select_body_neterror (Other_value ''bad selector'')],
      Inr \<lparr>invalid = True, reason = Some ''page check failed: bad selector''\<rparr>) \<and>
   isInvalidPage load_text_throws page_healthy =
     ([Did Page_url, Did Page_content, Did Cheerio_load, Did Select_body_neterror,
       Failed Select_body_text (Error_obj ''no body'')],
      Inr \<lparr>invalid = True, reason = Some ''page check failed: no body''\<rparr>)"
proof -
  note short = C5_empty_content [of page_short load_plain,
      THEN conjunct1, rule_format, OF page_short_usable,
      THEN conjunct1, rule_format, OF page_short_content]
  note rejected = C5_empty_content [of page_content_rejected load_plain,
      THEN conjunct1, rule_format, OF page_content_rejected_usable,
      THEN conjunct2, THEN conjunct1, rule_format, OF page_content_rejected_content]
  note thrown_url = C5_empty_content [of page_url_throws load_plain,
      THEN conjunct2, rule_format, OF page_url_throws_url]
  note parser = C5_empty_content [of page_healthy load_throws,
      THEN conjunct1, rule_format, OF page_healthy_usable,
      THEN conjunct2, THEN conjunct2, rule_format, OF page_healthy_content,
      THEN conjunct1, rule_format, OF load_throws_run]
  note selector = C5_empty_content [of page_healthy load_selector_throws,
      THEN conjunct1, rule_format, OF page_healthy_usable,
      THEN conjunct2, THEN conjunct2, rule_format, OF page_healthy_content,
      THEN conjunct2, rule_format, OF load_selector_throws_run,
      THEN conjunct1, rule_format, of "Other_value ''bad selector''"]
  note body = C5_empty_content [of page_healthy load_text_throws,
      THEN conjunct1, rule_format, OF page_healthy_usable,
      THEN conjunct2, THEN conjunct2, rule_format, OF page_healthy_content,
      THEN conjunct2, rule_format, OF load_text_throws_run,
      THEN conjunct2, rule_format, of "Error_obj ''no body''"]
  have first: "isInvalidPage load_plain page_short =
     ([Did Page_url, Did Page_content],
      Inr \<lparr>invalid = True, reason = Some ''empty page content''\<rparr>)"
    by (rule short)
  have second: "isInvalidPage load_plain page_content_rejected =
     ([Did Page_url, Failed Page_content (Error_obj ''Target closed'')],
      Inr \<lparr>invalid = True, reason = Some ''empty page content''\<rparr>)"
    by (rule rejected)
  have third: "isInvalidPage load_plain page_url_throws =
     ([Failed Page_url (Error_obj ''Target closed'')],
      Inr \<lparr>invalid = True, reason = Some ''page check failed: Target closed''\<rparr>)"
    using thrown_url by simp
  have fourth: "isInvalidPage load_throws page_healthy =
     ([Did Page_url, Did Page_content, Failed Cheerio_load (Error_obj ''boom'')],
      Inr \<lparr>invalid = True, reason = Some ''page check failed: boom''\<rparr>)"
    using parser by simp
  have fifth: "isInvalidPage load_selector_throws page_healthy =
     ([Did Page_url, Did Page_content, Did Cheerio_load,
       Failed Select_body_neterror (Other_value ''bad selector'')],
      Inr \<lparr>invalid = True, reason = Some ''page check failed: bad selector''\<rparr>)"
    using selector by simp
  have sixth: "isInvalidPage load_text_throws page_healthy =
     ([Did Page_url, Did Page_content, Did Cheerio_load, Did Select_body_neterror,
       Failed Select_body_text (Error_obj ''no body'')],
      Inr \<lparr>invalid = True, reason = Some ''page check failed: no body''\<rparr>)"
    using body by simp
  from first second third fourth fifth sixth show ?thesis by blast
qed

text \<open>
  C6, as the claim states it, fails: a page whose content contains
  \<open>ERR_CONNECTION_RESET\<close> but is shorter than 100 characters is reported with the
  reason "empty page content", which does not mention the signature. An earlier
  check of the chain decides first.
\<close>

theorem C6_counterexample:
  "content_of page_short = Inr ''<html><body>ERR_CONNECTION_RESET</body></html>'' \<and>
   str_includes ''<html><body>ERR_CONNECTION_RESET</body></html>'' ''ERR_CONNECTION_RESET'' \<and>
   snd (isInvalidPage load_plain page_short) =
     Inr \<lparr>invalid = True, reason = Some ''empty page content''\<rparr> \<and>
   \<not> str_includes ''empty page content'' ''ERR_CONNECTION_RESET''"
  by (simp add: isInvalidPage_def isInvalidPage_try_def page_short_def
        str_includes_def str_startsWith_def sublist_Cons_right)

text \<open>
  C6, amended. For every page whose content contains \<open>ERR_CONNECTION_RESET\<close>,
  \<open>isInvalidPage\<close> returns \<open>invalid = True\<close>. The reason is
  "HTTP/network error: ERR_CONNECTION_RESET" when no earlier check of the chain
  decides: the URL is neither blank nor a browser error URL, the content has at
  least 100 characters, the parsed document has no \<open>body.neterror\<close>, and none of
  the thirteen signatures listed before it occurs in the markup or in the body text.
\<close>

theorem C6_connection_reset:
  assumes "content_of p = Inr html" and "str_includes html ''ERR_CONNECTION_RESET''"
  shows "(\<exists>r. snd (isInvalidPage load p) = Inr r \<and> invalid r) \<and>
         (\<forall>url doc bodyText.
            url_of p = Inr (Some url) \<and> url \<noteq> [] \<and> url \<noteq> ''about:blank'' \<and>
            \<not> str_startsWith url ''chrome-error://'' \<and> \<not> str_startsWith url ''edge://'' \<and>
            100 \<le> length html \<and> load html = Inr doc \<and>
            body_neterror_length doc = Inr 0 \<and> body_text doc = Inr bodyText \<and>
            (\<forall>q \<in> set (take 13 errorPatterns).
               \<not> str_includes html q \<and> \<not> str_includes bodyText q) \<longrightarrow>
            snd (isInvalidPage load p) =
              Inr \<lparr>invalid = True,
                   reason = Some ''HTTP/network error: ERR_CONNECTION_RESET''\<rparr>)"
  using reset_page_invalid [OF assms] reset_page_reason [OF assms] by blast

theorem C6_connection_reset_witness:
  "content_of page_reset = Inr html_reset \<and>
   str_includes html_reset ''ERR_CONNECTION_RESET'' \<and>
   snd (isInvalidPage load_plain page_reset) =
     Inr \<lparr>invalid = True, reason = Some ''HTTP/network error: ERR_CONNECTION_RESET''\<rparr>"
proof -
  have c: "content_of page_reset = Inr html_reset"
    by (simp add: page_reset_def)
  have u: "url_of page_reset = Inr (Some ''https://www.bing.com/search?q=a'')"
    by (simp add: page_reset_def)
  have s: "\<not> str_startsWith ''https://www.bing.com/search?q=a'' ''chrome-error://'' \<and>
           \<not> str_startsWith ''https://www.bing.com/search?q=a'' ''edge://''"
    by (simp add: str_startsWith_def)
  have n: "100 \<le> length html_reset"
    by (simp add: html_reset_def)
  have l: "load_plain html_reset = Inr \<lparr>body_neterror_length = Inr 0, body_text = Inr []\<rparr>"
    by (simp add: load_plain_def)
  have "snd (isInvalidPage load_plain page_reset) =
     Inr \<lparr>invalid = True, reason = Some ''HTTP/network error: ERR_CONNECTION_RESET''\<rparr>"
    using C6_connection_reset [OF c html_reset_includes, of load_plain]
      u s n l html_reset_nothing_earlier
    by simp
  with c html_reset_includes show ?thesis by simp
qed

text \<open>
  C7. For every URL string that the page reports, \<open>validateActivityDomain\<close> returns
  true exactly when the URL contains one of the allow-listed substrings
  \<open>bing.com\<close>, \<open>rewards.bing.com\<close>, \<open>rewards.microsoft.com\<close>; otherwise it returns
  false, and the only thing it does besides reading the URL is to log one warning.
  It raises nothing. The check is string containment and depends on the allow-list
  only as a set, not on its order.
\<close>

theorem C7_validateActivityDomain:
  assumes "url_of p = Inr (Some url)"
  shows "validateActivityDomain p b =
           (if isOnExpectedDomain url [''bing.com'', ''rewards.bing.com'', ''rewards.microsoft.com'']
            then ([Did Page_url], Inr True)
            else ([Did Page_url,
                   Did (Bot_log (isMobile b) ''PAGE-VALIDATOR''
                         (''Unexpected domain after click: '' @ url) Level_warn)],
                  Inr False)) \<and>
         (\<forall>ds ds'. set ds = set ds' \<longrightarrow>
            isOnExpectedDomain url ds = isOnExpectedDomain url ds')"
proof -
  have "isOnExpectedDomain url [''bing.com'', ''rewards.bing.com'', ''rewards.microsoft.com''] =
        (isBingDomain url \<or> isRewardsDomain url)"
    by (simp add: isOnExpectedDomain_def isBingDomain_def isRewardsDomain_def)
  then have "validateActivityDomain p b =
           (if isOnExpectedDomain url [''bing.com'', ''rewards.bing.com'', ''rewards.microsoft.com'']
            then ([Did Page_url], Inr True)
            else ([Did Page_url,
                   Did (Bot_log (isMobile b) ''PAGE-VALIDATOR''
                         (''Unexpected domain after click: '' @ url) Level_warn)],
                  Inr False))"
    using assms by (simp add: validateActivityDomain_def)
  moreover have "\<forall>ds ds'. set ds = set ds' \<longrightarrow>
            isOnExpectedDomain url ds = isOnExpectedDomain url ds'"
    using isOnExpectedDomain_set by blast
  ultimately show ?thesis by (rule conjI)
qed

theorem C7_validateActivityDomain_witness:
  "validateActivityDomain page_elsewhere sample_bot =
     ([Did Page_url,
       Did (Bot_log False ''PAGE-VALIDATOR''
             ''Unexpected domain after click: https://example.org/landing'' Level_warn)],
      Inr False) \<and>
   validateActivityDomain page_short sample_bot = ([Did Page_url], Inr True)"
proof -
  have elsewhere: "url_of page_elsewhere = Inr (Some ''https://example.org/landing'')"
    by (simp add: page_elsewhere_def)
  have bing: "url_of page_short = Inr (Some ''https://www.bing.com/search?q=a'')"
    by (simp add: page_short_def)
  have no: "\<not> isOnExpectedDomain ''https://example.org/landing''
              [''bing.com'', ''rewards.bing.com'', ''rewards.microsoft.com'']"
    by (simp add: isOnExpectedDomain_def str_includes_def sublist_Cons_right)
  have yes: "isOnExpectedDomain ''https://www.bing.com/search?q=a''
              [''bing.com'', ''rewards.bing.com'', ''rewards.microsoft.com'']"
    by (simp add: isOnExpectedDomain_def str_includes_def sublist_Cons_right)
  show ?thesis
    using C7_validateActivityDomain [OF elsewhere, of sample_bot]
      C7_validateActivityDomain [OF bing, of sample_bot] no yes
    by (simp add: sample_bot_def)
qed

text \<open>
  C8. When \<open>allowedUserIds\<close> is absent or empty (or there is no \<open>discordBot\<close>
  section at all), \<open>hasPermission\<close> returns true for every caller. When the list is
  not empty, it returns true exactly when the caller's user id is an element of the
  list after each entry has been converted with \<open>String\<close>.
\<close>

theorem C8_hasPermission:
  "(discordBot settings = None \<longrightarrow> hasPermission number_text settings i) \<and>
   (\<forall>d. discordBot settings = Some d \<longrightarrow>
      (allowedUserIds d = None \<or> allowedUserIds d = Some [] \<longrightarrow>
         hasPermission number_text settings i) \<and>
      (\<forall>ids. allowedUserIds d = Some ids \<and> ids \<noteq> [] \<longrightarrow>
         hasPermission number_text settings i =
           (user_id i \<in> set (map (String_of number_text) ids))))"
  by (auto simp: hasPermission_def Let_def)

theorem C8_hasPermission_witness:
  "hasPermission string_of_nat settings_open \<lparr>user_id = ''4242''\<rparr> \<and>
   hasPermission string_of_nat settings_listed \<lparr>user_id = ''1002''\<rparr> \<and>
   \<not> hasPermission string_of_nat settings_listed \<lparr>user_id = ''4242''\<rparr>"
proof -
  have opened: "discordBot settings_open = Some \<lparr>allowedUserIds = Some []\<rparr>"
    by (simp add: settings_open_def)
  have listed: "discordBot settings_listed =
      Some \<lparr>allowedUserIds = Some [Id_string ''1001'', Id_number 1002]\<rparr>"
    by (simp add: settings_listed_def)
  have rendered: "string_of_nat 1002 = ''1002''"
    by (simp add: string_of_nat.simps digit_char_def)
  show ?thesis
    using C8_hasPermission [of settings_open string_of_nat "\<lparr>user_id = ''4242''\<rparr>"]
      C8_hasPermission [of settings_listed string_of_nat "\<lparr>user_id = ''1002''\<rparr>"]
      C8_hasPermission [of settings_listed string_of_nat "\<lparr>user_id = ''4242''\<rparr>"]
      opened listed rendered
    by simp
qed




text \<open>
  C10. For every URL string, the acceptance test of \<^verbatim>\<open>validateActivityDomain\<close>,
  \<open>isBingDomain url \<or> isRewardsDomain url\<close>, equals
  "url contains bing.com or url contains rewards.microsoft.com": the
  \<open>rewards.bing.com\<close> disjunct of \<open>isRewardsDomain\<close> is redundant, since a URL that
  contains it contains \<open>bing.com\<close> as well.
\<close>

theorem C10_rewards_bing_disjunct_redundant:
  "(isBingDomain url \<or> isRewardsDomain url) =
     (str_includes url ''bing.com'' \<or> str_includes url ''rewards.microsoft.com'')"
  unfolding isBingDomain_def isRewardsDomain_def
  using str_includes_trans [OF _ rewards_bing_includes_bing] by blast

end
